theory Spec2Isabelle
  imports Complex_Main
begin

section \<open>Numbers: float64 with exact finite arithmetic\<close>

text \<open>
  The arrays of \<^verbatim>\<open>hmmidunnomaybe.py\<close> hold numpy float64 values. They are modelled by
  \<open>fl\<close>: a finite value is an exact real (no rounding, no overflow, no signed zero), and
  the three special values of IEEE 754 are kept, because the code relies on them:
  \<^verbatim>\<open>np.log(0)\<close> is \<open>-inf\<close>, \<^verbatim>\<open>-inf - (-inf)\<close> and \<^verbatim>\<open>0 / 0\<close> are \<open>nan\<close>.
\<close>

datatype fl = Fin real | PInf | NInf | NaN

fun fadd :: "fl \<Rightarrow> fl \<Rightarrow> fl" where
  "fadd NaN y = NaN"
| "fadd x NaN = NaN"
| "fadd PInf NInf = NaN"
| "fadd NInf PInf = NaN"
| "fadd PInf y = PInf"
| "fadd x PInf = PInf"
| "fadd NInf y = NInf"
| "fadd x NInf = NInf"
| "fadd (Fin a) (Fin b) = Fin (a + b)"

fun fneg :: "fl \<Rightarrow> fl" where
  "fneg (Fin a) = Fin (- a)"
| "fneg PInf = NInf"
| "fneg NInf = PInf"
| "fneg NaN = NaN"

definition fsub :: "fl \<Rightarrow> fl \<Rightarrow> fl" where
  "fsub x y = fadd x (fneg y)"

fun fdiv :: "fl \<Rightarrow> fl \<Rightarrow> fl" where
  "fdiv NaN y = NaN"
| "fdiv x NaN = NaN"
| "fdiv (Fin a) (Fin b) =
     (if b \<noteq> 0 then Fin (a / b) else if a = 0 then NaN else if 0 < a then PInf else NInf)"
| "fdiv (Fin a) y = Fin 0"
| "fdiv PInf (Fin b) = (if 0 \<le> b then PInf else NInf)"
| "fdiv NInf (Fin b) = (if 0 \<le> b then NInf else PInf)"
| "fdiv x y = NaN"

fun fexp :: "fl \<Rightarrow> fl" where
  "fexp (Fin a) = Fin (exp a)"
| "fexp PInf = PInf"
| "fexp NInf = Fin 0"
| "fexp NaN = NaN"

fun flog :: "fl \<Rightarrow> fl" where
  "flog (Fin a) = (if 0 < a then Fin (ln a) else if a = 0 then NInf else NaN)"
| "flog PInf = PInf"
| "flog NInf = NaN"
| "flog NaN = NaN"

text \<open>\<open>fgt x y\<close> is the comparison \<^verbatim>\<open>x > y\<close>: false as soon as one side is \<open>nan\<close>.\<close>

fun fgt :: "fl \<Rightarrow> fl \<Rightarrow> bool" where
  "fgt NaN y = False"
| "fgt x NaN = False"
| "fgt x PInf = False"
| "fgt PInf y = True"
| "fgt NInf y = False"
| "fgt (Fin a) NInf = True"
| "fgt (Fin a) (Fin b) = (b < a)"

definition fge :: "fl \<Rightarrow> fl \<Rightarrow> bool" where
  "fge x y = (x \<noteq> NaN \<and> y \<noteq> NaN \<and> \<not> fgt y x)"

fun isfinite :: "fl \<Rightarrow> bool" where
  "isfinite (Fin a) = True"
| "isfinite x = False"

section \<open>Arrays\<close>

text \<open>
  A one-dimensional array is a list, a two-dimensional array the list of its rows, a
  three-dimensional one the list of its planes. \<open>np.sum\<close> of a float array is \<open>fsum\<close>
  (with exact finite arithmetic the order of the additions does not matter).
\<close>

type_synonym vec = "fl list"
type_synonym mat = "fl list list"

definition fsum :: "vec \<Rightarrow> fl" where
  "fsum xs = foldr fadd xs (Fin 0)"

definition vadd :: "vec \<Rightarrow> vec \<Rightarrow> vec" where
  "vadd xs ys = map (\<lambda>(x, y). fadd x y) (zip xs ys)"

definition col :: "'a list list \<Rightarrow> nat \<Rightarrow> 'a list" where
  "col m j = map (\<lambda>r. r ! j) m"

definition last_col :: "'a list list \<Rightarrow> 'a list" where
  "last_col m = map last m"

definition set_col :: "'a list list \<Rightarrow> nat \<Rightarrow> 'a list \<Rightarrow> 'a list list" where
  "set_col m j v = map (\<lambda>(r, x). r[j := x]) (zip m v)"

definition set_at :: "'a list list \<Rightarrow> nat \<Rightarrow> nat \<Rightarrow> 'a \<Rightarrow> 'a list list" where
  "set_at m i j x = m[i := (m ! i)[j := x]]"

definition ncols :: "'a list list \<Rightarrow> nat" where
  "ncols m = (case m of [] \<Rightarrow> 0 | r # _ \<Rightarrow> length r)"

text \<open>
  \<^verbatim>\<open>np.empty\<close> returns uninitialised memory. The model fills the buffer with \<open>nan\<close>
  (with \<open>0\<close> for an integer buffer); the lemmas \<open>forward_buffer\<close>, \<open>backward_buffer\<close>
  and \<open>viterbi_path_buffer\<close> below show that no result depends on what a buffer held.
\<close>

definition np_empty :: "nat \<Rightarrow> nat \<Rightarrow> mat" where
  "np_empty n m = replicate n (replicate m NaN)"

definition np_empty_int :: "nat \<Rightarrow> nat \<Rightarrow> nat list list" where
  "np_empty_int n m = replicate n (replicate m 0)"

definition np_zeros :: "nat \<Rightarrow> nat \<Rightarrow> mat" where
  "np_zeros n m = replicate n (replicate m (Fin 0))"

text \<open>
  \<^verbatim>\<open>np.argmax\<close>: the first index of the maximum; a \<open>nan\<close> counts as the maximum and
  stops the scan. (numpy raises on an empty array; no array of the program is empty when
  \<open>argmax\<close> reads it, and the model returns \<open>0\<close> there.)
\<close>

fun argmax_scan :: "vec \<Rightarrow> nat \<Rightarrow> nat \<Rightarrow> fl \<Rightarrow> nat" where
  "argmax_scan [] i b bv = b"
| "argmax_scan (x # xs) i b bv =
     (if bv = NaN then b
      else if x = NaN \<or> fgt x bv then argmax_scan xs (Suc i) i x
      else argmax_scan xs (Suc i) b bv)"

definition argmax :: "vec \<Rightarrow> nat" where
  "argmax xs = (case xs of [] \<Rightarrow> 0 | x # xs' \<Rightarrow> argmax_scan xs' 1 0 x)"

section \<open>The helpers of \<^verbatim>\<open>_utils\<close>\<close>

text \<open>
  \<^verbatim>\<open>hmmidunnomaybe.py\<close> imports \<open>_normalize\<close>, \<open>_choice\<close>, \<open>_logsumexp\<close> and
  \<open>_check_array_sums_to_1\<close> from a module \<^verbatim>\<open>_utils\<close> that is not among the sources.
\<close>

text \<open>\<open>np.amax\<close>: the maximum of an array; a \<open>nan\<close> propagates.\<close>

definition fmax :: "fl \<Rightarrow> fl \<Rightarrow> fl" where
  "fmax x y = (if x = NaN \<or> y = NaN then NaN else if fgt y x then y else x)"

definition amax :: "vec \<Rightarrow> fl" where
  "amax xs = foldr fmax xs NInf"

text \<open>
  Modelled from the spec: \<open>_logsumexp\<close> of \<^verbatim>\<open>_utils\<close> is missing. Section 4.3: it "must
  be computed via the max-subtraction trick to avoid overflow/underflow, and must correctly
  handle all-\<open>-inf\<close> inputs by returning \<open>-inf\<close> rather than NaN"; the glossary: "numerically
  stable evaluation of log(sum_i exp(x_i)) via max-subtraction". The maximum is subtracted
  only when it is finite. \<open>scipy.special.logsumexp\<close>, which \<open>EM\<close> calls once, is the same
  function on a one-dimensional array.
\<close>

definition logsumexp :: "vec \<Rightarrow> fl" where
  "logsumexp a =
     (let a_max = amax a;
          m = (if isfinite a_max then a_max else Fin 0)
      in fadd (flog (fsum (map (\<lambda>x. fexp (fsub x m)) a))) m)"

text \<open>
  Modelled from the spec: \<open>_normalize\<close> of \<^verbatim>\<open>_utils\<close> is missing. Section 4.6: "normalize
  \<pi>-accumulator to sum to 1; normalize each row of A-accumulator"; a row that sums to zero
  is not special-cased and "would propagate division-by-zero \<rightarrow> NaN row".
  \<open>normalize\<close> is the call without an axis, \<open>normalize_rows\<close> the call with \<^verbatim>\<open>axis=1\<close>.
\<close>

definition normalize :: "vec \<Rightarrow> vec" where
  "normalize a = map (\<lambda>x. fdiv x (fsum a)) a"

definition normalize_rows :: "mat \<Rightarrow> mat" where
  "normalize_rows a = map normalize a"

text \<open>
  The errors of the program. \<open>row_id\<close> is what the f-strings \<^verbatim>\<open>"init_probas"\<close>,
  \<^verbatim>\<open>f"Row {s} of A"\<close>, \<^verbatim>\<open>f"Row {s} of B"\<close>, \<^verbatim>\<open>f"E at t={t}"\<close> and
  \<^verbatim>\<open>f"gamma at t={t}"\<close> say.
\<close>

datatype row_id = Init_probas | Row_of_A nat | Row_of_B nat | E_at nat | Gamma_at nat

datatype error =
    ValueError string
  | IndexError
  | AttributeError
  | AssertionError
  | ValidationError row_id fl

definition bindE :: "error + 'a \<Rightarrow> ('a \<Rightarrow> error + 'b) \<Rightarrow> error + 'b" where
  "bindE m f = (case m of Inl e \<Rightarrow> Inl e | Inr x \<Rightarrow> f x)"

text \<open>
  Modelled from the spec: \<open>_check_array_sums_to_1\<close> of \<^verbatim>\<open>_utils\<close> is missing. Section
  4.2: "verify the sum equals 1 within an absolute tolerance; on violation, fail with a
  validation error naming which row and the observed sum". The tolerance is a constant of
  the missing module and a parameter \<open>tol\<close> here. The array is given flat (a matrix as
  the concatenation of its rows).
\<close>

fun sums_to_1 :: "real \<Rightarrow> fl \<Rightarrow> bool" where
  "sums_to_1 tol (Fin s) = (\<bar>s - 1\<bar> \<le> tol)"
| "sums_to_1 tol x = False"

definition check_array_sums_to_1 :: "real \<Rightarrow> vec \<Rightarrow> row_id \<Rightarrow> error + unit" where
  "check_array_sums_to_1 tol a name =
     (if sums_to_1 tol (fsum a) then Inr () else Inl (ValidationError name (fsum a)))"

section \<open>The model object\<close>

text \<open>
  The attributes of an \<open>HMM\<close> object. An attribute that \<^verbatim>\<open>__init__\<close> does not assign
  is optional: \<open>None\<close> when the object does not have it (yet). \<open>cached_log_pi\<close> is the
  attribute \<^verbatim>\<open>self.__log_pi\<close>, and likewise for \<open>A\<close> and \<open>B\<close>.
\<close>

record hmm =
  init_probas :: vec
  transitions :: mat
  emissions :: mat
  n_iter :: int
  n_hidden_states :: nat
  n_observable_states :: nat
  recompute_log_pi :: "bool option"
  recompute_log_A :: "bool option"
  recompute_log_B :: "bool option"
  cached_log_pi :: "vec option"
  cached_log_A :: "mat option"
  cached_log_B :: "mat option"
  enable_sanity_checks :: "bool option"

text \<open>The properties \<open>pi\<close>, \<open>A\<close>, \<open>B\<close>: getter and setter.\<close>

definition pi_get :: "hmm \<Rightarrow> vec" where
  "pi_get h = init_probas h"

definition pi_set :: "vec \<Rightarrow> hmm \<Rightarrow> hmm" where
  "pi_set v h = h\<lparr>init_probas := v, recompute_log_pi := Some True\<rparr>"

definition A_get :: "hmm \<Rightarrow> mat" where
  "A_get h = transitions h"

definition A_set :: "mat \<Rightarrow> hmm \<Rightarrow> hmm" where
  "A_set v h = h\<lparr>transitions := v, recompute_log_A := Some True\<rparr>"

definition B_get :: "hmm \<Rightarrow> mat" where
  "B_get h = emissions h"

definition B_set :: "mat \<Rightarrow> hmm \<Rightarrow> hmm" where
  "B_set v h = h\<lparr>emissions := v, recompute_log_B := Some True\<rparr>"

text \<open>
  The properties \<open>_log_pi\<close>, \<open>_log_A\<close>, \<open>_log_B\<close>. \<^verbatim>\<open>getattr(self, "_recompute_log_pi", True)\<close>
  is true unless the attribute is there and false. A read returns the value and the object,
  whose cache attribute it may have assigned; it raises \<open>AttributeError\<close> when it is not to
  recompute and the cache attribute does not exist.
\<close>

definition log_pi :: "hmm \<Rightarrow> error + (vec \<times> hmm)" where
  "log_pi h =
     (let h1 = (if recompute_log_pi h \<noteq> Some False
                then h\<lparr>cached_log_pi := Some (map flog (pi_get h))\<rparr> else h)
      in case cached_log_pi h1 of None \<Rightarrow> Inl AttributeError | Some v \<Rightarrow> Inr (v, h1))"

definition log_A :: "hmm \<Rightarrow> error + (mat \<times> hmm)" where
  "log_A h =
     (let h1 = (if recompute_log_A h \<noteq> Some False
                then h\<lparr>cached_log_A := Some (map (map flog) (A_get h))\<rparr> else h)
      in case cached_log_A h1 of None \<Rightarrow> Inl AttributeError | Some v \<Rightarrow> Inr (v, h1))"

definition log_B :: "hmm \<Rightarrow> error + (mat \<times> hmm)" where
  "log_B h =
     (let h1 = (if recompute_log_B h \<noteq> Some False
                then h\<lparr>cached_log_B := Some (map (map flog) (B_get h))\<rparr> else h)
      in case cached_log_B h1 of None \<Rightarrow> Inl AttributeError | Some v \<Rightarrow> Inr (v, h1))"

text \<open>\<open>_check_matrices_conditioning\<close>: \<open>pi\<close>, then row \<open>s\<close> of \<open>A\<close> and of \<open>B\<close> for each state.\<close>

fun check_rows :: "real \<Rightarrow> hmm \<Rightarrow> nat list \<Rightarrow> error + unit" where
  "check_rows tol h [] = Inr ()"
| "check_rows tol h (s # ss) =
     bindE (check_array_sums_to_1 tol (A_get h ! s) (Row_of_A s)) (\<lambda>_.
     bindE (check_array_sums_to_1 tol (B_get h ! s) (Row_of_B s)) (\<lambda>_.
     check_rows tol h ss))"

definition check_matrices_conditioning :: "real \<Rightarrow> hmm \<Rightarrow> error + unit" where
  "check_matrices_conditioning tol h =
     bindE (check_array_sums_to_1 tol (pi_get h) Init_probas) (\<lambda>_.
     check_rows tol h [0..<n_hidden_states h])"

text \<open>
  \<^verbatim>\<open>__init__\<close>. The tables arrive as nested lists: \<open>init_probas\<close> one level deep, the
  other two two levels deep. \<^verbatim>\<open>np.array(..., dtype=np.float64)\<close> raises \<open>ValueError\<close> on
  rows of different lengths; of \<open>[]\<close> it makes an array of shape \<open>(0,)\<close>, whose
  \<^verbatim>\<open>shape[1]\<close> raises \<open>IndexError\<close>. \<open>shape1\<close> is \<^verbatim>\<open>.shape[1]\<close>.
\<close>

definition rectangular :: "'a list list \<Rightarrow> bool" where
  "rectangular m = (\<forall>r \<in> set m. length r = ncols m)"

definition np_array2 :: "mat \<Rightarrow> error + mat" where
  "np_array2 m =
     (if rectangular m then Inr m
      else Inl (ValueError ''setting an array element with a sequence.''))"

definition shape1 :: "'a list list \<Rightarrow> error + nat" where
  "shape1 m = (if m = [] then Inl IndexError else Inr (ncols m))"

definition HMM_init :: "real \<Rightarrow> vec \<Rightarrow> mat \<Rightarrow> mat \<Rightarrow> int \<Rightarrow> error + hmm" where
  "HMM_init tol init_probas' transitions' emissions' n_iter' =
     bindE (np_array2 transitions') (\<lambda>tr.
     bindE (np_array2 emissions') (\<lambda>em.
     bindE (shape1 em) (\<lambda>k.
     bindE (shape1 tr) (\<lambda>a1.
       let h = \<lparr>init_probas = init_probas', transitions = tr, emissions = em,
                n_iter = n_iter', n_hidden_states = length tr, n_observable_states = k,
                recompute_log_pi = None, recompute_log_A = None, recompute_log_B = None,
                cached_log_pi = None, cached_log_A = None, cached_log_B = None,
                enable_sanity_checks = None\<rparr>
       in if \<not> (length (A_get h) = a1 \<and> a1 = length (pi_get h)
                 \<and> length (pi_get h) = length (B_get h))
          then Inl (ValueError ''inconsistent number of hidden states.'')
          else bindE (check_matrices_conditioning tol h) (\<lambda>_. Inr h)))))"

section \<open>The compiled kernels\<close>

text \<open>
  The module-level functions \<open>_forward\<close>, \<open>_backward\<close>, \<open>_viterbi\<close>, \<open>_get_best_path\<close> and
  \<open>_sample_one\<close>. A \<^verbatim>\<open>for\<close> loop over \<^verbatim>\<open>range(a, b)\<close> is a \<open>fold\<close> over \<open>[a..<b]\<close>,
  a loop over \<^verbatim>\<open>range(b - 1, -1, -1)\<close> a \<open>fold\<close> over \<open>rev [0..<b]\<close>; the lattice that
  the source overwrites in place is passed in and returned. A sequence is the list of its
  symbols.
\<close>

definition forward_cell :: "nat list \<Rightarrow> mat \<Rightarrow> mat \<Rightarrow> nat \<Rightarrow> nat \<Rightarrow> mat \<Rightarrow> mat" where
  "forward_cell seq log_A' log_B' t s log_alpha =
     (let la = set_at log_alpha s t (logsumexp (vadd (col log_alpha (t - 1)) (col log_A' s)))
      in set_at la s t (fadd (la ! s ! t) (log_B' ! s ! (seq ! t))))"

definition forward :: "nat list \<Rightarrow> vec \<Rightarrow> mat \<Rightarrow> mat \<Rightarrow> mat \<Rightarrow> fl \<times> mat" where
  "forward seq log_pi' log_A' log_B' log_alpha =
     (let n_obs = length seq;
          n_states = length log_pi';
          la0 = set_col log_alpha 0 (vadd log_pi' (col log_B' (seq ! 0)));
          la = fold (\<lambda>t. fold (forward_cell seq log_A' log_B' t) [0..<n_states]) [1..<n_obs] la0
      in (logsumexp (last_col la), la))"

definition backward_cell :: "nat list \<Rightarrow> mat \<Rightarrow> mat \<Rightarrow> nat \<Rightarrow> nat \<Rightarrow> mat \<Rightarrow> mat" where
  "backward_cell seq log_A' log_B' t s log_beta =
     set_at log_beta s t
       (logsumexp (vadd (vadd (log_A' ! s) (col log_B' (seq ! (t + 1)))) (col log_beta (t + 1))))"

definition backward :: "nat list \<Rightarrow> vec \<Rightarrow> mat \<Rightarrow> mat \<Rightarrow> mat \<Rightarrow> mat" where
  "backward seq log_pi' log_A' log_B' log_beta =
     (let n_obs = length seq;
          n_states = length log_pi';
          lb0 = map (\<lambda>r. r[length r - 1 := flog (Fin 1)]) log_beta
      in fold (\<lambda>t. fold (backward_cell seq log_A' log_B' t) [0..<n_states])
           (rev [0..<n_obs - 1]) lb0)"

definition viterbi_cell ::
  "nat list \<Rightarrow> mat \<Rightarrow> mat \<Rightarrow> nat \<Rightarrow> nat \<Rightarrow> mat \<times> nat list list \<Rightarrow> mat \<times> nat list list" where
  "viterbi_cell seq log_A' log_B' t s st =
     (let (log_V, back_path) = st;
          work_buffer = vadd (col log_V (t - 1)) (col log_A' s);
          best_prev = argmax work_buffer
      in (set_at log_V s t (fadd (work_buffer ! best_prev) (log_B' ! s ! (seq ! t))),
          set_at back_path s t best_prev))"

definition viterbi ::
  "nat list \<Rightarrow> vec \<Rightarrow> mat \<Rightarrow> mat \<Rightarrow> mat \<Rightarrow> nat list list \<Rightarrow> mat \<times> nat list list" where
  "viterbi seq log_pi' log_A' log_B' log_V back_path =
     (let n_obs = length seq;
          n_states = length log_pi';
          v0 = set_col log_V 0 (vadd log_pi' (col log_B' (seq ! 0)))
      in fold (\<lambda>t. fold (viterbi_cell seq log_A' log_B' t) [0..<n_states]) [1..<n_obs]
           (v0, back_path))"

definition get_best_path :: "mat \<Rightarrow> nat list list \<Rightarrow> nat list \<Rightarrow> nat list" where
  "get_best_path log_V back_path best_path =
     snd (fold (\<lambda>t (s, bp). (back_path ! s ! t, bp[t := s]))
            (rev [0..<ncols back_path]) (argmax (last_col log_V), best_path))"

text \<open>
  \<open>_sample_one\<close> draws from numba's random generator, which \<^verbatim>\<open>np.random.seed(seed)\<close>
  resets, through \<open>_choice\<close> of the missing \<^verbatim>\<open>_utils\<close>. The generator is a state of a type
  \<open>'g\<close>; \<open>np_seed\<close> (the state after seeding) and \<open>choice\<close> (a draw from a distribution:
  the index drawn and the next state) are parameters of the model.
\<close>

fun sample_one_loop ::
  "(vec \<Rightarrow> 'g \<Rightarrow> nat \<times> 'g) \<Rightarrow> mat \<Rightarrow> mat \<Rightarrow> nat \<Rightarrow> nat \<Rightarrow> 'g \<Rightarrow> nat list \<Rightarrow> nat list" where
  "sample_one_loop choice A' B' 0 s g observations = observations"
| "sample_one_loop choice A' B' (Suc n) s g observations =
     (let (obs, g1) = choice (B' ! s) g;
          (s', g2) = choice (A' ! s) g1
      in sample_one_loop choice A' B' n s' g2 (observations @ [obs]))"

definition sample_one ::
  "(nat \<Rightarrow> 'g) \<Rightarrow> (vec \<Rightarrow> 'g \<Rightarrow> nat \<times> 'g) \<Rightarrow> nat \<Rightarrow> vec \<Rightarrow> mat \<Rightarrow> mat \<Rightarrow> nat \<Rightarrow> nat list" where
  "sample_one np_seed choice n_obs pi' A' B' seed =
     (let (s, g) = choice pi' (np_seed seed)
      in sample_one_loop choice A' B' n_obs s g [])"

section \<open>The methods of \<open>HMM\<close>\<close>

text \<open>
  A corpus is the list of its sequences. \<^verbatim>\<open>np.array(sequences).shape[1]\<close> raises
  \<open>IndexError\<close> unless the corpus is a non-empty list of sequences of one length.

  The kernels index the tables with the symbols of the sequence. \<open>seq_guard\<close> writes out
  the \<open>IndexError\<close> of an empty sequence (\<^verbatim>\<open>seq[0]\<close>) and of a symbol that is not a column
  of \<open>B\<close> (\<^verbatim>\<open>log_B[:, seq[t]]\<close>); the methods raise it before they call a kernel.
\<close>

definition shape_of_corpus :: "nat list list \<Rightarrow> error + nat \<times> nat" where
  "shape_of_corpus sequences =
     (if sequences = [] \<or> \<not> rectangular sequences then Inl IndexError
      else Inr (length sequences, ncols sequences))"

definition seq_guard :: "nat list \<Rightarrow> mat \<Rightarrow> error + unit" where
  "seq_guard seq log_B' =
     (if seq = [] \<or> (\<exists>x \<in> set seq. ncols log_B' \<le> x) then Inl IndexError else Inr ())"

definition HMM_forward :: "hmm \<Rightarrow> nat list \<Rightarrow> mat \<Rightarrow> error + (fl \<times> mat \<times> hmm)" where
  "HMM_forward h seq log_alpha =
     bindE (log_pi h) (\<lambda>(lp, h1).
     bindE (log_A h1) (\<lambda>(lA, h2).
     bindE (log_B h2) (\<lambda>(lB, h3).
     bindE (seq_guard seq lB) (\<lambda>_.
       let (l, la) = forward seq lp lA lB log_alpha in Inr (l, la, h3)))))"

definition HMM_backward :: "hmm \<Rightarrow> nat list \<Rightarrow> mat \<Rightarrow> error + (mat \<times> hmm)" where
  "HMM_backward h seq log_beta =
     bindE (log_pi h) (\<lambda>(lp, h1).
     bindE (log_A h1) (\<lambda>(lA, h2).
     bindE (log_B h2) (\<lambda>(lB, h3).
     bindE (seq_guard seq lB) (\<lambda>_.
       Inr (backward seq lp lA lB log_beta, h3)))))"

definition HMM_viterbi ::
  "hmm \<Rightarrow> nat list \<Rightarrow> mat \<Rightarrow> nat list list \<Rightarrow> error + (mat \<times> nat list list \<times> hmm)" where
  "HMM_viterbi h seq log_V back_path =
     bindE (log_pi h) (\<lambda>(lp, h1).
     bindE (log_A h1) (\<lambda>(lA, h2).
     bindE (log_B h2) (\<lambda>(lB, h3).
     bindE (seq_guard seq lB) (\<lambda>_.
       let (v, bp) = viterbi seq lp lA lB log_V back_path in Inr (v, bp, h3)))))"

fun log_likelihood_loop :: "hmm \<Rightarrow> nat list list \<Rightarrow> mat \<Rightarrow> fl \<Rightarrow> error + (fl \<times> hmm)" where
  "log_likelihood_loop h [] log_alpha total_log_likelihood = Inr (total_log_likelihood, h)"
| "log_likelihood_loop h (seq # rest) log_alpha total_log_likelihood =
     bindE (HMM_forward h seq log_alpha) (\<lambda>(l, log_alpha', h').
     log_likelihood_loop h' rest log_alpha' (fadd total_log_likelihood l))"

definition log_likelihood :: "hmm \<Rightarrow> nat list list \<Rightarrow> error + (fl \<times> hmm)" where
  "log_likelihood h sequences =
     bindE (shape_of_corpus sequences) (\<lambda>(n_seq, n_obs).
     log_likelihood_loop h sequences (np_empty (n_hidden_states h) n_obs) (Fin 0))"

definition likelihood :: "hmm \<Rightarrow> nat list list \<Rightarrow> error + (fl \<times> hmm)" where
  "likelihood h sequences =
     bindE (log_likelihood h sequences) (\<lambda>(l, h'). Inr (fexp l, h'))"

fun decode_loop ::
  "hmm \<Rightarrow> nat \<Rightarrow> nat list list \<Rightarrow> mat \<Rightarrow> nat list list \<Rightarrow> nat list list
     \<Rightarrow> error + (nat list list \<times> hmm)" where
  "decode_loop h n_obs [] log_V back_path out = Inr (out, h)"
| "decode_loop h n_obs (seq # rest) log_V back_path out =
     bindE (HMM_viterbi h seq log_V back_path) (\<lambda>(log_V', back_path', h').
     decode_loop h' n_obs rest log_V' back_path'
       (out @ [get_best_path log_V' back_path' (replicate n_obs 0)]))"

definition decode :: "hmm \<Rightarrow> nat list list \<Rightarrow> error + (nat list list \<times> hmm)" where
  "decode h sequences =
     bindE (shape_of_corpus sequences) (\<lambda>(n_seq, n_obs).
     decode_loop h n_obs sequences (np_empty (n_hidden_states h) n_obs)
       (np_empty_int (n_hidden_states h) n_obs) [])"

text \<open>
  \<open>sample\<close>: \<^verbatim>\<open>np.random.RandomState(seed)\<close> is a second generator, of a type \<open>'r\<close>;
  \<open>random_state\<close> (its state after seeding) and \<open>randint\<close> (\<^verbatim>\<open>rng.randint(10000)\<close>: the
  number drawn and the next state) are parameters of the model. The result is the value
  of \<^verbatim>\<open>np.array(sequences)\<close>, the array whose rows are what \<open>_sample_one\<close> returned.
\<close>

fun sample_loop ::
  "(nat \<Rightarrow> 'g) \<Rightarrow> (vec \<Rightarrow> 'g \<Rightarrow> nat \<times> 'g) \<Rightarrow> (nat \<Rightarrow> 'r \<Rightarrow> nat \<times> 'r) \<Rightarrow> hmm \<Rightarrow> nat \<Rightarrow> nat \<Rightarrow> 'r
     \<Rightarrow> nat list list" where
  "sample_loop np_seed choice randint h 0 n_obs rng = []"
| "sample_loop np_seed choice randint h (Suc n) n_obs rng =
     (let (seed, rng') = randint 10000 rng
      in sample_one np_seed choice n_obs (pi_get h) (A_get h) (B_get h) seed
           # sample_loop np_seed choice randint h n n_obs rng')"

definition sample ::
  "(nat \<Rightarrow> 'g) \<Rightarrow> (vec \<Rightarrow> 'g \<Rightarrow> nat \<times> 'g) \<Rightarrow> (nat \<Rightarrow> 'r) \<Rightarrow> (nat \<Rightarrow> 'r \<Rightarrow> nat \<times> 'r) \<Rightarrow> hmm
     \<Rightarrow> nat \<Rightarrow> nat \<Rightarrow> nat \<Rightarrow> nat list list" where
  "sample np_seed choice random_state randint h n_seq n_obs seed =
     sample_loop np_seed choice randint h n_seq n_obs (random_state seed)"

section \<open>Baum-Welch: \<open>EM\<close>\<close>

text \<open>
  \<open>log_E\<close> is a three-dimensional lattice, \<open>log_E ! i ! j ! t\<close>. The body of the loop over
  the sequences is \<open>em_sequence\<close>; its state is the three accumulators, the three buffers
  that \<open>EM\<close> allocates once and reuses (\<open>log_alpha\<close>, \<open>log_beta\<close>, \<open>log_E\<close>), and the object.
  (\<open>log_gamma\<close> is bound to a new array for every sequence.)

  The source reads \<^verbatim>\<open>self._log_A\<close> and \<^verbatim>\<open>self._log_B\<close> again for every cell of \<open>log_E\<close>;
  the model reads them once before the loop. After \<open>_forward\<close> and \<open>_backward\<close> have read
  them, a further read returns the same arrays and leaves the object as it is (lemma
  \<open>log_read_again\<close>).
\<close>

type_synonym cube = "fl list list list"

definition set_at3 :: "cube \<Rightarrow> nat \<Rightarrow> nat \<Rightarrow> nat \<Rightarrow> fl \<Rightarrow> cube" where
  "set_at3 e i j t x = e[i := set_at (e ! i) j t x]"

definition np_empty3 :: "nat \<Rightarrow> nat \<Rightarrow> nat \<Rightarrow> cube" where
  "np_empty3 n m k = replicate n (replicate m (replicate k NaN))"

definition madd :: "mat \<Rightarrow> mat \<Rightarrow> mat" where
  "madd a b = map (\<lambda>(r, r'). vadd r r') (zip a b)"

text \<open>\<^verbatim>\<open>np.allclose(a, b)\<close> on two scalars, with numpy's \<open>rtol = 1e-5\<close> and \<open>atol = 1e-8\<close>.\<close>

fun allclose :: "fl \<Rightarrow> fl \<Rightarrow> bool" where
  "allclose (Fin a) (Fin b) = (\<bar>a - b\<bar> \<le> 1 / 10 ^ 8 + (1 / 10 ^ 5) * \<bar>b\<bar>)"
| "allclose PInf PInf = True"
| "allclose NInf NInf = True"
| "allclose x y = False"

fun for_each :: "nat list \<Rightarrow> (nat \<Rightarrow> error + unit) \<Rightarrow> error + unit" where
  "for_each [] f = Inr ()"
| "for_each (x # xs) f = bindE (f x) (\<lambda>_. for_each xs f)"

definition fill_log_E ::
  "nat list \<Rightarrow> nat \<Rightarrow> nat \<Rightarrow> mat \<Rightarrow> mat \<Rightarrow> mat \<Rightarrow> mat \<Rightarrow> fl \<Rightarrow> cube \<Rightarrow> cube" where
  "fill_log_E seq n_obs n_states log_alpha log_A' log_B' log_beta log_likelihood' log_E =
     fold (\<lambda>t. fold (\<lambda>i. fold (\<lambda>j e.
         set_at3 e i j t
           (fsub (fadd (fadd (fadd (log_alpha ! i ! t) (log_A' ! i ! j))
                          (log_B' ! j ! (seq ! (t + 1))))
                    (log_beta ! j ! (t + 1)))
              log_likelihood'))
       [0..<n_states]) [0..<n_states]) [0..<n_obs - 1] log_E"

definition compute_log_gamma :: "mat \<Rightarrow> mat \<Rightarrow> fl \<Rightarrow> mat" where
  "compute_log_gamma log_alpha log_beta log_likelihood' =
     map (\<lambda>r. map (\<lambda>x. fsub x log_likelihood') r) (madd log_alpha log_beta)"

definition sanity_checks :: "real \<Rightarrow> nat \<Rightarrow> nat \<Rightarrow> cube \<Rightarrow> mat \<Rightarrow> error + unit" where
  "sanity_checks tol n_obs n_states log_E log_gamma =
     (let E = map (map (map fexp)) log_E;
          gamma = map (map fexp) log_gamma
      in bindE (for_each [0..<n_obs - 1] (\<lambda>t.
           check_array_sums_to_1 tol (concat (map (\<lambda>plane. col plane t) E)) (E_at t))) (\<lambda>_.
         bindE (for_each [0..<ncols gamma] (\<lambda>t.
           check_array_sums_to_1 tol (col gamma t) (Gamma_at t))) (\<lambda>_.
         for_each [0..<n_obs - 1] (\<lambda>t. for_each [0..<n_states] (\<lambda>i.
           if allclose (gamma ! i ! t) (fsum (col (E ! i) t)) then Inr ()
           else Inl AssertionError)))))"

definition accumulate_B :: "nat list \<Rightarrow> nat \<Rightarrow> mat \<Rightarrow> mat \<Rightarrow> mat" where
  "accumulate_B seq n_obs log_gamma B_acc =
     fold (\<lambda>t b. set_col b (seq ! t) (vadd (col b (seq ! t)) (map fexp (col log_gamma t))))
       [0..<n_obs] B_acc"

definition em_sequence ::
  "real \<Rightarrow> nat \<Rightarrow> nat list \<Rightarrow> (vec \<times> mat \<times> mat) \<times> (mat \<times> mat \<times> cube) \<times> hmm
     \<Rightarrow> error + ((vec \<times> mat \<times> mat) \<times> (mat \<times> mat \<times> cube) \<times> hmm)" where
  "em_sequence tol n_obs seq st =
     (let ((pi_acc, A_acc, B_acc), (log_alpha, log_beta, log_E), h) = st in
      bindE (HMM_forward h seq log_alpha) (\<lambda>(l, log_alpha', h1).
      bindE (HMM_backward h1 seq log_beta) (\<lambda>(log_beta', h2).
      bindE (log_A h2) (\<lambda>(lA, h3).
      bindE (log_B h3) (\<lambda>(lB, h4).
        let log_likelihood' = logsumexp (last_col log_alpha');
            log_E' = fill_log_E seq n_obs (n_hidden_states h4) log_alpha' lA lB log_beta'
                       log_likelihood' log_E;
            log_gamma = compute_log_gamma log_alpha' log_beta' log_likelihood'
        in bindE (if enable_sanity_checks h4 = Some True
                  then sanity_checks tol n_obs (n_hidden_states h4) log_E' log_gamma
                  else Inr ()) (\<lambda>_.
           Inr ((vadd pi_acc (map fexp (col log_gamma 0)),
                 madd A_acc (map (map (\<lambda>v. fsum (map fexp v))) log_E'),
                 accumulate_B seq n_obs log_gamma B_acc),
                (log_alpha', log_beta', log_E'), h4)))))))"

fun em_sequences ::
  "real \<Rightarrow> nat \<Rightarrow> nat list list \<Rightarrow> (vec \<times> mat \<times> mat) \<times> (mat \<times> mat \<times> cube) \<times> hmm
     \<Rightarrow> error + ((vec \<times> mat \<times> mat) \<times> (mat \<times> mat \<times> cube) \<times> hmm)" where
  "em_sequences tol n_obs [] st = Inr st"
| "em_sequences tol n_obs (seq # rest) st =
     bindE (em_sequence tol n_obs seq st) (em_sequences tol n_obs rest)"

text \<open>One pass of the loop \<^verbatim>\<open>for _ in range(self.n_iter)\<close>: E step, then M step.\<close>

definition em_iteration ::
  "real \<Rightarrow> nat \<Rightarrow> nat list list \<Rightarrow> (mat \<times> mat \<times> cube) \<times> hmm
     \<Rightarrow> error + ((mat \<times> mat \<times> cube) \<times> hmm)" where
  "em_iteration tol n_obs sequences st =
     (let (bufs, h) = st;
          pi_acc = map (\<lambda>_. Fin 0) (pi_get h);
          A_acc = map (map (\<lambda>_. Fin 0)) (A_get h);
          B_acc = map (map (\<lambda>_. Fin 0)) (B_get h)
      in bindE (em_sequences tol n_obs sequences ((pi_acc, A_acc, B_acc), bufs, h))
           (\<lambda>((pi_acc', A_acc', B_acc'), bufs', h1).
             let h2 = pi_set (normalize pi_acc') h1;
                 h3 = A_set (normalize_rows A_acc') h2;
                 h4 = B_set (normalize_rows B_acc') h3
             in if enable_sanity_checks h4 = Some True
                then bindE (check_matrices_conditioning tol h4) (\<lambda>_. Inr (bufs', h4))
                else Inr (bufs', h4)))"

fun em_loop ::
  "real \<Rightarrow> nat \<Rightarrow> nat list list \<Rightarrow> nat \<Rightarrow> (mat \<times> mat \<times> cube) \<times> hmm
     \<Rightarrow> error + ((mat \<times> mat \<times> cube) \<times> hmm)" where
  "em_loop tol n_obs sequences 0 st = Inr st"
| "em_loop tol n_obs sequences (Suc k) st =
     bindE (em_iteration tol n_obs sequences st) (em_loop tol n_obs sequences k)"

text \<open>
  \<open>EM\<close> returns nothing; its effect is the object it leaves. The parameter \<open>n_iter'\<close> is
  the argument \<^verbatim>\<open>n_iter=100\<close> of the method, which the body never reads: the loop runs
  \<^verbatim>\<open>range(self.n_iter)\<close>. \<^verbatim>\<open>np.empty\<close> of the shape \<^verbatim>\<open>(S, S, n_obs - 1)\<close> raises
  \<open>ValueError\<close> when \<open>n_obs\<close> is \<open>0\<close>.
\<close>

definition EM :: "real \<Rightarrow> hmm \<Rightarrow> nat list list \<Rightarrow> int \<Rightarrow> error + hmm" where
  "EM tol h sequences n_iter' =
     bindE (shape_of_corpus sequences) (\<lambda>(n_seq, n_obs).
       if n_obs = 0 then Inl (ValueError ''negative dimensions are not allowed'')
       else
         let S = n_hidden_states h;
             bufs = (np_empty S n_obs, np_empty S n_obs, np_empty3 S S (n_obs - 1))
         in bindE (em_loop tol n_obs sequences (nat (n_iter h)) (bufs, h))
              (\<lambda>(bufs', h'). Inr h'))"

section \<open>The invariants of a model\<close>

text \<open>
  Section 3 of the specification: \<open>S = len(\<pi>) = rows(A) = cols(A) = rows(B)\<close>, and every
  row of \<open>\<pi>\<close>, \<open>A\<close>, \<open>B\<close> is non-negative and sums to 1 within the tolerance.
  \<open>flags_inv\<close> holds of every object the class makes (lemmas \<open>HMM_init_flags\<close>,
  \<open>setters_flags\<close>, \<open>log_reads_flags\<close>): no method assigns \<open>False\<close> to a recompute flag.
\<close>

fun is_prob :: "fl \<Rightarrow> bool" where
  "is_prob (Fin p) = (0 \<le> p)"
| "is_prob x = False"

definition shape_inv :: "hmm \<Rightarrow> bool" where
  "shape_inv h =
     (0 < n_hidden_states h
      \<and> length (init_probas h) = n_hidden_states h
      \<and> length (transitions h) = n_hidden_states h
      \<and> (\<forall>r \<in> set (transitions h). length r = n_hidden_states h)
      \<and> length (emissions h) = n_hidden_states h
      \<and> (\<forall>r \<in> set (emissions h). length r = n_observable_states h))"

definition nonneg_inv :: "hmm \<Rightarrow> bool" where
  "nonneg_inv h =
     ((\<forall>x \<in> set (init_probas h). is_prob x)
      \<and> (\<forall>r \<in> set (transitions h). \<forall>x \<in> set r. is_prob x)
      \<and> (\<forall>r \<in> set (emissions h). \<forall>x \<in> set r. is_prob x))"

definition sums_inv :: "real \<Rightarrow> hmm \<Rightarrow> bool" where
  "sums_inv tol h =
     (sums_to_1 tol (fsum (init_probas h))
      \<and> (\<forall>r \<in> set (transitions h). sums_to_1 tol (fsum r))
      \<and> (\<forall>r \<in> set (emissions h). sums_to_1 tol (fsum r)))"

definition flags_inv :: "hmm \<Rightarrow> bool" where
  "flags_inv h =
     (recompute_log_pi h \<noteq> Some False \<and> recompute_log_A h \<noteq> Some False
      \<and> recompute_log_B h \<noteq> Some False)"

definition valid_model :: "real \<Rightarrow> hmm \<Rightarrow> bool" where
  "valid_model tol h = (shape_inv h \<and> nonneg_inv h \<and> sums_inv tol h \<and> flags_inv h)"

text \<open>
  A corpus that the methods accept: not empty, every sequence of the same length
  \<open>T > 0\<close>, every symbol below \<open>K\<close>.
\<close>

definition valid_seq :: "hmm \<Rightarrow> nat \<Rightarrow> nat list \<Rightarrow> bool" where
  "valid_seq h T seq = (length seq = T \<and> 0 < T \<and> (\<forall>x \<in> set seq. x < n_observable_states h))"

definition valid_corpus :: "hmm \<Rightarrow> nat \<Rightarrow> nat list list \<Rightarrow> bool" where
  "valid_corpus h T sequences = (sequences \<noteq> [] \<and> (\<forall>seq \<in> set sequences. valid_seq h T seq))"

text \<open>
  The model of the tests (\<open>toy_params\<close> of \<^verbatim>\<open>test_hmm.py\<close>): 2 hidden states, 3 symbols,
  as \<open>HMM(pi, A, B)\<close> leaves it; and the sequence of \<open>test_likelihood_alpha_beta\<close>.
\<close>

definition toy_pi :: vec where
  "toy_pi = [Fin (6 / 10), Fin (4 / 10)]"

definition toy_A :: mat where
  "toy_A = [[Fin (7 / 10), Fin (3 / 10)], [Fin (4 / 10), Fin (6 / 10)]]"

definition toy_B :: mat where
  "toy_B = [[Fin (1 / 10), Fin (4 / 10), Fin (5 / 10)], [Fin (6 / 10), Fin (3 / 10), Fin (1 / 10)]]"

definition toy_hmm :: "int \<Rightarrow> hmm" where
  "toy_hmm n =
     \<lparr>init_probas = toy_pi, transitions = toy_A, emissions = toy_B,
      n_iter = n, n_hidden_states = 2, n_observable_states = 3,
      recompute_log_pi = None, recompute_log_A = None, recompute_log_B = None,
      cached_log_pi = None, cached_log_A = None, cached_log_B = None,
      enable_sanity_checks = None\<rparr>"

definition toy_seq :: "nat list" where
  "toy_seq = [0, 1, 2, 0, 1, 2, 0, 1]"

section \<open>What \<open>__init__\<close> accepts\<close>

text \<open>
  \<open>shapes_equal\<close>: the three tables are arrays and \<open>len(\<pi>) = rows(A) = cols(A) = rows(B)\<close>.
  \<open>rows_sum_to_1\<close>: what \<open>_check_matrices_conditioning\<close> checks. \<open>table_row\<close> is the
  row that a \<open>row_id\<close> names, \<open>new_hmm\<close> the object that \<open>__init__\<close> builds.
  \<open>skew_pi\<close>, \<open>id_A\<close>, \<open>one_B\<close> are tables whose rows sum to 1, one entry being negative.
\<close>

definition shapes_equal :: "vec \<Rightarrow> mat \<Rightarrow> mat \<Rightarrow> bool" where
  "shapes_equal pi' A' B' =
     (rectangular A' \<and> rectangular B' \<and> A' \<noteq> [] \<and> B' \<noteq> []
      \<and> length A' = ncols A' \<and> ncols A' = length pi' \<and> length pi' = length B')"

definition rows_sum_to_1 :: "real \<Rightarrow> vec \<Rightarrow> mat \<Rightarrow> mat \<Rightarrow> bool" where
  "rows_sum_to_1 tol pi' A' B' =
     (sums_to_1 tol (fsum pi') \<and> (\<forall>r \<in> set A'. sums_to_1 tol (fsum r))
      \<and> (\<forall>r \<in> set B'. sums_to_1 tol (fsum r)))"

fun table_row :: "vec \<Rightarrow> mat \<Rightarrow> mat \<Rightarrow> row_id \<Rightarrow> vec" where
  "table_row pi' A' B' Init_probas = pi'"
| "table_row pi' A' B' (Row_of_A s) = A' ! s"
| "table_row pi' A' B' (Row_of_B s) = B' ! s"
| "table_row pi' A' B' r = []"

fun names_row :: "nat \<Rightarrow> row_id \<Rightarrow> bool" where
  "names_row S Init_probas = True"
| "names_row S (Row_of_A s) = (s < S)"
| "names_row S (Row_of_B s) = (s < S)"
| "names_row S r = False"

definition new_hmm :: "vec \<Rightarrow> mat \<Rightarrow> mat \<Rightarrow> int \<Rightarrow> hmm" where
  "new_hmm pi' A' B' n =
     \<lparr>init_probas = pi', transitions = A', emissions = B',
      n_iter = n, n_hidden_states = length A', n_observable_states = ncols B',
      recompute_log_pi = None, recompute_log_A = None, recompute_log_B = None,
      cached_log_pi = None, cached_log_A = None, cached_log_B = None,
      enable_sanity_checks = None\<rparr>"

definition skew_pi :: vec where
  "skew_pi = [Fin (3 / 2), Fin (- 1 / 2)]"

definition id_A :: mat where
  "id_A = [[Fin 1, Fin 0], [Fin 0, Fin 1]]"

definition one_B :: mat where
  "one_B = [[Fin 1], [Fin 1]]"

text \<open>
  A model with one hidden state and two symbols, a fair coin: \<open>HMM([1], [[1]], [[.5, .5]], n)\<close>.
\<close>

definition coin_hmm :: "int \<Rightarrow> hmm" where
  "coin_hmm n = new_hmm [Fin 1] [[Fin 1]] [[Fin (1 / 2), Fin (1 / 2)]] n"

text \<open>
  \<open>lattice S T m\<close>: the array \<open>m\<close> has the shape \<open>(S, T)\<close>.
\<close>

definition lattice :: "nat \<Rightarrow> nat \<Rightarrow> 'a list list \<Rightarrow> bool" where
  "lattice S T m = (length m = S \<and> (\<forall>i<S. length (m ! i) = T))"

text \<open>
  The recurrence of section 4.3 of the specification, in its words:
  \<open>log_alpha[s,0] = log_pi[s] + log_B[s, seq[0]]\<close> and, for \<open>t \<ge> 1\<close>,
  \<open>log_alpha[s,t] = logsumexp_j(log_alpha[j,t-1] + log_A[j,s]) + log_B[s, seq[t]]\<close>;
  the log-likelihood of a sequence is \<open>logsumexp_s(log_alpha[s, T-1])\<close>.
\<close>

fun log_alpha_rec :: "vec \<Rightarrow> mat \<Rightarrow> mat \<Rightarrow> nat list \<Rightarrow> nat \<Rightarrow> nat \<Rightarrow> fl" where
  "log_alpha_rec lp lA lB seq 0 s = fadd (lp ! s) (lB ! s ! (seq ! 0))"
| "log_alpha_rec lp lA lB seq (Suc t) s =
     fadd (logsumexp (map (\<lambda>j. fadd (log_alpha_rec lp lA lB seq t j) (lA ! j ! s)) [0..<length lp]))
       (lB ! s ! (seq ! Suc t))"

definition seq_log_likelihood :: "vec \<Rightarrow> mat \<Rightarrow> mat \<Rightarrow> nat list \<Rightarrow> fl" where
  "seq_log_likelihood lp lA lB seq =
     logsumexp (map (log_alpha_rec lp lA lB seq (length seq - 1)) [0..<length lp])"

text \<open>The lattice that the recurrence defines, as an array of the shape \<open>(S, T)\<close>.\<close>

definition log_alpha_lattice :: "vec \<Rightarrow> mat \<Rightarrow> mat \<Rightarrow> nat list \<Rightarrow> mat" where
  "log_alpha_lattice lp lA lB seq =
     map (\<lambda>s. map (\<lambda>t. log_alpha_rec lp lA lB seq t s) [0..<length seq]) [0..<length lp]"

text \<open>
  A log-probability is \<open>-inf\<close> or finite (\<open>lg\<close>); \<open>pr\<close> is the probability it stands for,
  its exponential.
\<close>

fun lg :: "fl \<Rightarrow> bool" where
  "lg (Fin a) = True"
| "lg NInf = True"
| "lg x = False"

fun pr :: "fl \<Rightarrow> real" where
  "pr (Fin a) = exp a"
| "pr x = 0"

section \<open>Basic facts\<close>

lemma bindE_Inl [simp]: "bindE (Inl e) f = Inl e"
  by (simp add: bindE_def)

lemma bindE_Inr [simp]: "bindE (Inr x) f = f x"
  by (simp add: bindE_def)

lemma bindE_eq_Inr: "bindE m f = Inr y \<longleftrightarrow> (\<exists>x. m = Inr x \<and> f x = Inr y)"
  by (cases m) simp_all

lemma toy_sums: "0 \<le> tol \<Longrightarrow> sums_inv tol (toy_hmm n)"
  by (simp add: sums_inv_def toy_hmm_def toy_pi_def toy_A_def toy_B_def fsum_def)

lemma toy_valid: "0 \<le> tol \<Longrightarrow> valid_model tol (toy_hmm n)"
  using toy_sums[of tol n]
  by (simp add: valid_model_def shape_inv_def nonneg_inv_def flags_inv_def
      toy_hmm_def toy_pi_def toy_A_def toy_B_def)

lemma toy_init: "0 \<le> tol \<Longrightarrow> HMM_init tol toy_pi toy_A toy_B n = Inr (toy_hmm n)"
  by (simp add: HMM_init_def np_array2_def rectangular_def ncols_def shape1_def
      A_get_def B_get_def pi_get_def check_matrices_conditioning_def check_array_sums_to_1_def
      toy_hmm_def toy_pi_def toy_A_def toy_B_def fsum_def upt_rec[of 0] upt_rec[of 1])

lemma log_pi_fresh:
  "recompute_log_pi h \<noteq> Some False \<Longrightarrow>
   log_pi h = Inr (map flog (init_probas h), h\<lparr>cached_log_pi := Some (map flog (init_probas h))\<rparr>)"
  by (simp add: log_pi_def pi_get_def)

lemma log_A_fresh:
  "recompute_log_A h \<noteq> Some False \<Longrightarrow>
   log_A h = Inr (map (map flog) (transitions h),
                  h\<lparr>cached_log_A := Some (map (map flog) (transitions h))\<rparr>)"
  by (simp add: log_A_def A_get_def)

lemma log_B_fresh:
  "recompute_log_B h \<noteq> Some False \<Longrightarrow>
   log_B h = Inr (map (map flog) (emissions h),
                  h\<lparr>cached_log_B := Some (map (map flog) (emissions h))\<rparr>)"
  by (simp add: log_B_def B_get_def)

section \<open>Construction and validation\<close>

lemma check_rows_Inr:
  "check_rows tol h ss = Inr u \<longleftrightarrow>
   (\<forall>s \<in> set ss. sums_to_1 tol (fsum (transitions h ! s)) \<and> sums_to_1 tol (fsum (emissions h ! s)))"
  by (induction ss) (auto simp: check_array_sums_to_1_def A_get_def B_get_def)

lemma check_rows_Inl:
  "check_rows tol h ss = Inl e \<Longrightarrow>
   \<exists>rid. e = ValidationError rid (fsum (table_row (init_probas h) (transitions h) (emissions h) rid))
     \<and> \<not> sums_to_1 tol (fsum (table_row (init_probas h) (transitions h) (emissions h) rid))
     \<and> (\<exists>s \<in> set ss. rid = Row_of_A s \<or> rid = Row_of_B s)"
proof (induction ss)
  case Nil
  then show ?case by simp
next
  case (Cons s ss)
  show ?case
  proof (cases "sums_to_1 tol (fsum (transitions h ! s))")
    case False
    with Cons.prems have "e = ValidationError (Row_of_A s) (fsum (transitions h ! s))"
      by (simp add: check_array_sums_to_1_def A_get_def)
    with False show ?thesis by (intro exI[of _ "Row_of_A s"]) simp
  next
    case a: True
    show ?thesis
    proof (cases "sums_to_1 tol (fsum (emissions h ! s))")
      case False
      with a Cons.prems have "e = ValidationError (Row_of_B s) (fsum (emissions h ! s))"
        by (simp add: check_array_sums_to_1_def A_get_def B_get_def)
      with False show ?thesis by (intro exI[of _ "Row_of_B s"]) simp
    next
      case True
      with a Cons.prems have "check_rows tol h ss = Inl e"
        by (simp add: check_array_sums_to_1_def A_get_def B_get_def)
      from Cons.IH[OF this] show ?thesis by auto
    qed
  qed
qed

lemma check_matrices_Inr:
  "length (transitions h) = n_hidden_states h \<Longrightarrow> length (emissions h) = n_hidden_states h \<Longrightarrow>
   check_matrices_conditioning tol h = Inr u \<longleftrightarrow> sums_inv tol h"
  by (auto simp: check_matrices_conditioning_def check_array_sums_to_1_def pi_get_def
      check_rows_Inr sums_inv_def all_set_conv_all_nth)

lemma check_matrices_Inl:
  assumes "check_matrices_conditioning tol h = Inl e"
  shows "\<exists>rid. e = ValidationError rid (fsum (table_row (init_probas h) (transitions h) (emissions h) rid))
     \<and> \<not> sums_to_1 tol (fsum (table_row (init_probas h) (transitions h) (emissions h) rid))
     \<and> names_row (n_hidden_states h) rid"
proof (cases "sums_to_1 tol (fsum (init_probas h))")
  case False
  with assms have "e = ValidationError Init_probas (fsum (init_probas h))"
    by (simp add: check_matrices_conditioning_def check_array_sums_to_1_def pi_get_def)
  with False show ?thesis by (intro exI[of _ Init_probas]) simp
next
  case True
  with assms have "check_rows tol h [0..<n_hidden_states h] = Inl e"
    by (simp add: check_matrices_conditioning_def check_array_sums_to_1_def pi_get_def)
  from check_rows_Inl[OF this] show ?thesis by auto
qed

lemma HMM_init_shapes:
  "shapes_equal pi' A' B' \<Longrightarrow>
   HMM_init tol pi' A' B' n =
     bindE (check_matrices_conditioning tol (new_hmm pi' A' B' n)) (\<lambda>_. Inr (new_hmm pi' A' B' n))"
  by (simp add: HMM_init_def shapes_equal_def np_array2_def shape1_def new_hmm_def
      A_get_def B_get_def pi_get_def Let_def)

lemma HMM_init_mismatch:
  "\<not> shapes_equal pi' A' B' \<Longrightarrow>
   HMM_init tol pi' A' B' n \<in> {Inl (ValueError ''setting an array element with a sequence.''),
      Inl IndexError, Inl (ValueError ''inconsistent number of hidden states.'')}"
  by (auto simp: HMM_init_def shapes_equal_def np_array2_def shape1_def
      A_get_def B_get_def pi_get_def Let_def)

lemma new_hmm_shape: "shapes_equal pi' A' B' \<Longrightarrow> shape_inv (new_hmm pi' A' B' n)"
  by (auto simp: shapes_equal_def shape_inv_def new_hmm_def rectangular_def)

text \<open>
  Claim C8, as amended. Constructing a model from \<open>(\<pi>, A, B, n_iter)\<close>:
  \<^item> when the shapes agree and every row of \<open>\<pi>\<close>, \<open>A\<close>, \<open>B\<close> sums to 1 within the
    tolerance, construction succeeds, and the object satisfies the shape invariant and the
    sum invariant (its entries need not be non-negative: nothing checks that);
  \<^item> when the shapes do not agree, construction fails with an error and returns no object;
  \<^item> when the shapes agree and some row does not sum to 1 within the tolerance,
    construction fails with a validation error that names an offending row (\<open>\<pi>\<close>, or a
    row \<open>s < S\<close> of \<open>A\<close> or \<open>B\<close>) and carries the observed sum of that row.
  Validation is not behind any flag: \<open>HMM_init\<close> always runs it.
\<close>

theorem HMM_init_result:
  "(shapes_equal pi' A' B' \<and> rows_sum_to_1 tol pi' A' B' \<longrightarrow>
      HMM_init tol pi' A' B' n = Inr (new_hmm pi' A' B' n)
      \<and> shape_inv (new_hmm pi' A' B' n) \<and> sums_inv tol (new_hmm pi' A' B' n)
      \<and> flags_inv (new_hmm pi' A' B' n))
   \<and> (\<not> shapes_equal pi' A' B' \<longrightarrow> (\<exists>e. HMM_init tol pi' A' B' n = Inl e))
   \<and> (shapes_equal pi' A' B' \<and> \<not> rows_sum_to_1 tol pi' A' B' \<longrightarrow>
      (\<exists>rid. HMM_init tol pi' A' B' n = Inl (ValidationError rid (fsum (table_row pi' A' B' rid)))
         \<and> names_row (length pi') rid
         \<and> \<not> sums_to_1 tol (fsum (table_row pi' A' B' rid))))"
proof (intro conjI impI)
  assume a: "shapes_equal pi' A' B' \<and> rows_sum_to_1 tol pi' A' B'"
  let ?h = "new_hmm pi' A' B' n"
  have len: "length (transitions ?h) = n_hidden_states ?h" "length (emissions ?h) = n_hidden_states ?h"
    using a by (simp_all add: new_hmm_def shapes_equal_def)
  have s: "sums_inv tol ?h"
    using a by (simp add: sums_inv_def rows_sum_to_1_def new_hmm_def)
  then have "check_matrices_conditioning tol ?h = Inr ()"
    using check_matrices_Inr[OF len] by simp
  then show "HMM_init tol pi' A' B' n = Inr ?h"
    using a by (simp add: HMM_init_shapes)
  show "shape_inv ?h" using a by (simp add: new_hmm_shape)
  show "sums_inv tol ?h" by (rule s)
  show "flags_inv ?h" by (simp add: flags_inv_def new_hmm_def)
next
  assume "\<not> shapes_equal pi' A' B'"
  from HMM_init_mismatch[OF this] show "\<exists>e. HMM_init tol pi' A' B' n = Inl e"
    by auto
next
  assume a: "shapes_equal pi' A' B' \<and> \<not> rows_sum_to_1 tol pi' A' B'"
  let ?h = "new_hmm pi' A' B' n"
  have len: "length (transitions ?h) = n_hidden_states ?h" "length (emissions ?h) = n_hidden_states ?h"
    using a by (simp_all add: new_hmm_def shapes_equal_def)
  have "\<not> sums_inv tol ?h"
    using a by (simp add: sums_inv_def rows_sum_to_1_def new_hmm_def)
  then have "check_matrices_conditioning tol ?h \<noteq> Inr ()"
    using check_matrices_Inr[OF len] by simp
  then obtain e where e: "check_matrices_conditioning tol ?h = Inl e"
    by (cases "check_matrices_conditioning tol ?h") auto
  from check_matrices_Inl[OF e] obtain rid where
    r: "e = ValidationError rid (fsum (table_row pi' A' B' rid))"
       "\<not> sums_to_1 tol (fsum (table_row pi' A' B' rid))"
       "names_row (length A') rid"
    by (auto simp: new_hmm_def)
  have "length A' = length pi'" using a by (simp add: shapes_equal_def)
  with r e a show "\<exists>rid. HMM_init tol pi' A' B' n = Inl (ValidationError rid (fsum (table_row pi' A' B' rid)))
         \<and> names_row (length pi') rid
         \<and> \<not> sums_to_1 tol (fsum (table_row pi' A' B' rid))"
    by (intro exI[of _ rid]) (simp add: HMM_init_shapes)
qed

lemma toy_shapes: "shapes_equal toy_pi toy_A toy_B"
  by (simp add: shapes_equal_def rectangular_def ncols_def toy_pi_def toy_A_def toy_B_def)

lemma toy_rows: "0 \<le> tol \<Longrightarrow> rows_sum_to_1 tol toy_pi toy_A toy_B"
  by (simp add: rows_sum_to_1_def toy_pi_def toy_A_def toy_B_def fsum_def)

text \<open>
  Witness for C8: the model of the tests is accepted; a \<open>\<pi>\<close> of the wrong length and a
  \<open>\<pi>\<close> that sums to \<open>3/4\<close> are refused.
\<close>

theorem HMM_init_result_witness:
  "(shapes_equal toy_pi toy_A toy_B \<and> rows_sum_to_1 0 toy_pi toy_A toy_B
     \<and> HMM_init 0 toy_pi toy_A toy_B 10 = Inr (new_hmm toy_pi toy_A toy_B 10)
     \<and> sums_inv 0 (new_hmm toy_pi toy_A toy_B 10))
   \<and> (\<not> shapes_equal [Fin 1] toy_A toy_B \<and> (\<exists>e. HMM_init 0 [Fin 1] toy_A toy_B 10 = Inl e))
   \<and> (shapes_equal [Fin (1 / 2), Fin (1 / 4)] toy_A toy_B
        \<and> \<not> rows_sum_to_1 0 [Fin (1 / 2), Fin (1 / 4)] toy_A toy_B
        \<and> (\<exists>rid. HMM_init 0 [Fin (1 / 2), Fin (1 / 4)] toy_A toy_B 10
               = Inl (ValidationError rid (fsum (table_row [Fin (1 / 2), Fin (1 / 4)] toy_A toy_B rid)))
             \<and> names_row (length [Fin (1 / 2), Fin (1 / 4 :: real)]) rid))"
proof -
  have 1: "shapes_equal toy_pi toy_A toy_B \<and> rows_sum_to_1 0 toy_pi toy_A toy_B"
    by (simp add: toy_shapes toy_rows)
  have 2: "\<not> shapes_equal [Fin 1] toy_A toy_B"
    by (simp add: shapes_equal_def ncols_def toy_A_def toy_B_def)
  have 3: "shapes_equal [Fin (1 / 2), Fin (1 / 4)] toy_A toy_B
        \<and> \<not> rows_sum_to_1 0 [Fin (1 / 2), Fin (1 / 4)] toy_A toy_B"
    by (simp add: shapes_equal_def rectangular_def ncols_def toy_A_def toy_B_def
        rows_sum_to_1_def fsum_def)
  show ?thesis
    using 1 2 3
      HMM_init_result[of toy_pi toy_A toy_B 0 10]
      HMM_init_result[of "[Fin 1]" toy_A toy_B 0 10]
      HMM_init_result[of "[Fin (1 / 2), Fin (1 / 4)]" toy_A toy_B 0 10]
    by auto
qed

text \<open>
  Counterexample to C8 as stated: \<open>\<pi> = [1.5, -0.5]\<close> sums to 1, so construction succeeds,
  and the object does not satisfy the distribution invariant (an entry is negative).
\<close>

theorem HMM_init_negative_entry:
  "HMM_init (1 / 10 ^ 8) skew_pi id_A one_B 10 = Inr (new_hmm skew_pi id_A one_B 10)
   \<and> \<not> nonneg_inv (new_hmm skew_pi id_A one_B 10)
   \<and> \<not> valid_model (1 / 10 ^ 8) (new_hmm skew_pi id_A one_B 10)"
proof -
  have "shapes_equal skew_pi id_A one_B \<and> rows_sum_to_1 (1 / 10 ^ 8) skew_pi id_A one_B"
    by (simp add: shapes_equal_def rectangular_def ncols_def rows_sum_to_1_def fsum_def
        skew_pi_def id_A_def one_B_def)
  then have "HMM_init (1 / 10 ^ 8) skew_pi id_A one_B 10 = Inr (new_hmm skew_pi id_A one_B 10)"
    using check_matrices_Inr[of "new_hmm skew_pi id_A one_B 10" "1 / 10 ^ 8" "()"]
    by (simp add: HMM_init_shapes sums_inv_def rows_sum_to_1_def new_hmm_def shapes_equal_def)
  moreover have "\<not> nonneg_inv (new_hmm skew_pi id_A one_B 10)"
    by (simp add: nonneg_inv_def new_hmm_def skew_pi_def)
  ultimately show ?thesis by (simp add: valid_model_def)
qed

subsection \<open>The log caches\<close>

lemma HMM_init_flags: "HMM_init tol pi' A' B' n = Inr h \<Longrightarrow> flags_inv h"
  by (auto simp: HMM_init_def bindE_eq_Inr flags_inv_def Let_def split: if_splits)

lemma setters_flags:
  "flags_inv h \<Longrightarrow> flags_inv (pi_set v h) \<and> flags_inv (A_set w h) \<and> flags_inv (B_set w h)"
  by (simp add: flags_inv_def pi_set_def A_set_def B_set_def)

lemma log_reads_flags:
  "(log_pi h = Inr (v, h') \<longrightarrow> flags_inv h' = flags_inv h)
   \<and> (log_A h = Inr (w, h') \<longrightarrow> flags_inv h' = flags_inv h)
   \<and> (log_B h = Inr (w, h') \<longrightarrow> flags_inv h' = flags_inv h)"
  by (auto simp: log_pi_def log_A_def log_B_def flags_inv_def Let_def split: option.splits if_splits)

lemma setter_marks_own_flag:
  "recompute_log_pi (pi_set v h) = Some True
   \<and> recompute_log_A (pi_set v h) = recompute_log_A h
   \<and> recompute_log_B (pi_set v h) = recompute_log_B h
   \<and> recompute_log_A (A_set w h) = Some True
   \<and> recompute_log_pi (A_set w h) = recompute_log_pi h
   \<and> recompute_log_B (A_set w h) = recompute_log_B h
   \<and> recompute_log_B (B_set w h) = Some True
   \<and> recompute_log_pi (B_set w h) = recompute_log_pi h
   \<and> recompute_log_A (B_set w h) = recompute_log_A h"
  by (simp add: pi_set_def A_set_def B_set_def)

lemma log_pi_again: "log_pi h = Inr (v, h') \<Longrightarrow> log_pi h' = Inr (v, h')"
proof (cases "recompute_log_pi h = Some False")
  case True
  assume a: "log_pi h = Inr (v, h')"
  with True have "h' = h" by (simp add: log_pi_def split: option.splits)
  with a show ?thesis by simp
next
  case False
  assume "log_pi h = Inr (v, h')"
  with False have "v = map flog (init_probas h)" "h' = h\<lparr>cached_log_pi := Some v\<rparr>"
    by (auto simp: log_pi_def pi_get_def)
  with False show ?thesis by (simp add: log_pi_def pi_get_def)
qed

lemma log_A_again: "log_A h = Inr (v, h') \<Longrightarrow> log_A h' = Inr (v, h')"
proof (cases "recompute_log_A h = Some False")
  case True
  assume a: "log_A h = Inr (v, h')"
  with True have "h' = h" by (simp add: log_A_def split: option.splits)
  with a show ?thesis by simp
next
  case False
  assume "log_A h = Inr (v, h')"
  with False have "v = map (map flog) (transitions h)" "h' = h\<lparr>cached_log_A := Some v\<rparr>"
    by (auto simp: log_A_def A_get_def)
  with False show ?thesis by (simp add: log_A_def A_get_def)
qed

lemma log_B_again: "log_B h = Inr (v, h') \<Longrightarrow> log_B h' = Inr (v, h')"
proof (cases "recompute_log_B h = Some False")
  case True
  assume a: "log_B h = Inr (v, h')"
  with True have "h' = h" by (simp add: log_B_def split: option.splits)
  with a show ?thesis by simp
next
  case False
  assume "log_B h = Inr (v, h')"
  with False have "v = map (map flog) (emissions h)" "h' = h\<lparr>cached_log_B := Some v\<rparr>"
    by (auto simp: log_B_def B_get_def)
  with False show ?thesis by (simp add: log_B_def B_get_def)
qed

lemma log_read_again:
  "(log_pi h = Inr (v, h') \<longrightarrow> log_pi h' = Inr (v, h'))
   \<and> (log_A h = Inr (w, h') \<longrightarrow> log_A h' = Inr (w, h'))
   \<and> (log_B h = Inr (w, h') \<longrightarrow> log_B h' = Inr (w, h'))"
  using log_pi_again log_A_again log_B_again by blast

text \<open>
  Claim C9 says that a read of \<open>_log_pi\<close> recomputes only when the table is stale and
  otherwise returns the cached value. The code at its failing input: after a first read of
  \<open>_log_pi\<close> on the model of the tests the recompute flag is as before the read (absent,
  which reads as true), so the next read recomputes although no setter ran. When
  \<open>init_probas\<close> is assigned directly between the two reads (the case of the source's
  comment, "updating transitions would not update \<open>_log_A\<close>"), the second read returns the
  logarithm of the new table and not the cached array.
\<close>

theorem log_pi_recomputes_on_every_read:
  "log_pi (toy_hmm 10) = Inr (map flog toy_pi, (toy_hmm 10)\<lparr>cached_log_pi := Some (map flog toy_pi)\<rparr>)
   \<and> recompute_log_pi ((toy_hmm 10)\<lparr>cached_log_pi := Some (map flog toy_pi)\<rparr>) = None
   \<and> log_pi ((toy_hmm 10)\<lparr>cached_log_pi := Some (map flog toy_pi), init_probas := [Fin 1, Fin 0]\<rparr>)
       = Inr ([Fin 0, NInf],
              (toy_hmm 10)\<lparr>cached_log_pi := Some [Fin 0, NInf], init_probas := [Fin 1, Fin 0]\<rparr>)"
  by (simp add: log_pi_def pi_get_def toy_hmm_def Let_def)

subsection \<open>Sampling\<close>

lemma sample_one_loop_length:
  "length (sample_one_loop choice A' B' n s g obs) = length obs + n"
  by (induction n arbitrary: s g obs) (simp_all add: Let_def split: prod.splits)

lemma sample_one_length:
  "length (sample_one np_seed choice n_obs pi' A' B' seed) = n_obs"
  by (simp add: sample_one_def sample_one_loop_length split: prod.splits)

lemma sample_loop_shape:
  "map length (sample_loop np_seed choice randint h n n_obs rng) = replicate n n_obs"
  by (induction n arbitrary: rng) (simp_all add: sample_one_length Let_def split: prod.splits)

text \<open>
  Claim C7 says that \<open>sample\<close> returns a pair of arrays, the observations and the hidden
  states. The code returns one array: row \<open>i\<close> is the list of observations that the
  \<open>i\<close>-th call of \<open>_sample_one\<close> returned, so its shape is \<open>(n_seq, n_obs)\<close>; the hidden
  states that \<open>_sample_one\<close> went through are not returned.
\<close>

theorem sample_returns_observations_only:
  "map length (sample np_seed choice random_state randint h n_seq n_obs seed)
     = replicate n_seq n_obs"
  by (simp add: sample_def sample_loop_shape)

subsection \<open>The number of iterations of \<open>EM\<close>\<close>

lemma upt_2: "[0..<2] = [0, 1]" by (simp add: upt_rec)
lemma upt_12: "[1..<2] = [1]" by (simp add: upt_rec)

lemma logsumexp_single: "logsumexp [Fin a] = Fin a"
  by (simp add: logsumexp_def amax_def fmax_def fsum_def fsub_def Let_def)

lemma coin_forward:
  "forward [0, 0] [Fin 0] [[Fin 0]] [[Fin (ln (1 / 2)), Fin (ln (1 / 2))]] [[x, y]]
   = (Fin (ln (1 / 2) + ln (1 / 2)), [[Fin (ln (1 / 2)), Fin (ln (1 / 2) + ln (1 / 2))]])"
  by (simp add: forward_def Let_def set_col_def vadd_def col_def upt_12 forward_cell_def
      set_at_def logsumexp_single last_col_def)

lemma coin_backward:
  "backward [0, 0] [Fin 0] [[Fin 0]] [[Fin (ln (1 / 2)), Fin (ln (1 / 2))]] [[x, y]]
   = [[Fin (ln (1 / 2)), Fin 0]]"
  by (simp add: backward_def Let_def vadd_def col_def backward_cell_def set_at_def
      logsumexp_single)

lemma EM_ignores_its_argument: "EM tol h sequences n = EM tol h sequences m"
  by (simp add: EM_def)

lemma coin_iteration:
  "\<exists>bufs h. em_iteration tol 2 [[0, 0]] ((np_empty 1 2, np_empty 1 2, np_empty3 1 1 1), coin_hmm n)
      = Inr (bufs, h) \<and> emissions h = [[Fin 1, Fin 0]]"
  by (simp add: em_iteration_def em_sequence_def coin_hmm_def new_hmm_def np_empty_def np_empty3_def
     HMM_forward_def HMM_backward_def log_pi_def log_A_def log_B_def pi_get_def A_get_def B_get_def
     seq_guard_def ncols_def coin_forward coin_backward Let_def fill_log_E_def set_at3_def set_at_def
     compute_log_gamma_def madd_def vadd_def fsub_def last_col_def logsumexp_single accumulate_B_def
     upt_2 set_col_def col_def pi_set_def A_set_def B_set_def normalize_rows_def normalize_def
     fsum_def numeral_2_eq_2)

text \<open>
  Claim C5 says that \<open>EM(corpus, n)\<close> runs its loop \<open>n\<close> times. The code at its failing
  input: on a model constructed with \<open>n_iter = 0\<close>, \<open>EM(corpus, n_iter=1)\<close> runs no
  iteration and leaves the object as it was; on a model constructed with \<open>n_iter = 1\<close>,
  \<open>EM(corpus, n_iter=0)\<close> runs one iteration, which moves the emissions of the fair coin
  from \<open>[.5, .5]\<close> to \<open>[1, 0]\<close>.
\<close>

theorem EM_runs_the_constructor_count:
  "EM tol (coin_hmm 0) [[0, 0]] 1 = Inr (coin_hmm 0)
   \<and> (\<exists>h. EM tol (coin_hmm 1) [[0, 0]] 0 = Inr h \<and> emissions h = [[Fin 1, Fin 0]])"
proof
  show "EM tol (coin_hmm 0) [[0, 0]] 1 = Inr (coin_hmm 0)"
    by (simp add: EM_def shape_of_corpus_def rectangular_def ncols_def coin_hmm_def new_hmm_def)
  obtain bufs h where h: "em_iteration tol 2 [[0, 0]]
      ((np_empty 1 2, np_empty 1 2, np_empty3 1 1 1), coin_hmm 1) = Inr (bufs, h)"
    "emissions h = [[Fin 1, Fin 0]]"
    using coin_iteration[of tol 1] by blast
  have n: "n_hidden_states (coin_hmm 1) = 1" "nat (n_iter (coin_hmm 1)) = Suc 0"
    by (simp_all add: coin_hmm_def new_hmm_def)
  have "EM tol (coin_hmm 1) [[0, 0]] 0 = Inr h"
    using h(1)
    by (simp add: EM_def shape_of_corpus_def rectangular_def ncols_def Let_def n
        numeral_2_eq_2)
  with h(2) show "\<exists>h. EM tol (coin_hmm 1) [[0, 0]] 0 = Inr h \<and> emissions h = [[Fin 1, Fin 0]]"
    by blast
qed

subsection \<open>Arrays\<close>

lemma lattice_nth: "lattice S T m \<Longrightarrow> i < S \<Longrightarrow> length (m ! i) = T"
  by (auto simp: lattice_def)

lemma lattice_length: "lattice S T m \<Longrightarrow> length m = S"
  by (simp add: lattice_def)

lemma lattice_eqI:
  assumes "lattice S T m" "lattice S T m'" "\<And>i j. i < S \<Longrightarrow> j < T \<Longrightarrow> m ! i ! j = m' ! i ! j"
  shows "m = m'"
proof (rule nth_equalityI)
  show "length m = length m'" using assms(1,2) by (simp add: lattice_def)
  fix i assume "i < length m"
  then have i: "i < S" using assms(1) by (simp add: lattice_def)
  show "m ! i = m' ! i"
    by (rule nth_equalityI) (use i assms in \<open>simp_all add: lattice_nth\<close>)
qed

lemma lattice_set_at: "lattice S T m \<Longrightarrow> lattice S T (set_at m i j x)"
  by (cases "i < length m") (auto simp: lattice_def set_at_def nth_list_update)

lemma nth_set_at:
  "lattice S T m \<Longrightarrow> i < S \<Longrightarrow> j < T \<Longrightarrow> i' < S \<Longrightarrow>
   set_at m i j x ! i' ! j' = (if i' = i \<and> j' = j then x else m ! i' ! j')"
  by (auto simp: set_at_def lattice_def nth_list_update)

lemma lattice_set_col: "lattice S T m \<Longrightarrow> length v = S \<Longrightarrow> lattice S T (set_col m j v)"
  by (auto simp: lattice_def set_col_def)

lemma nth_set_col:
  "lattice S T m \<Longrightarrow> length v = S \<Longrightarrow> i < S \<Longrightarrow> j < T \<Longrightarrow>
   set_col m j v ! i ! j' = (if j' = j then v ! i else m ! i ! j')"
  by (auto simp: set_col_def lattice_def nth_list_update)

lemma length_vadd [simp]: "length (vadd xs ys) = min (length xs) (length ys)"
  by (simp add: vadd_def)

lemma nth_vadd: "i < length xs \<Longrightarrow> i < length ys \<Longrightarrow> vadd xs ys ! i = fadd (xs ! i) (ys ! i)"
  by (simp add: vadd_def)

lemma length_col [simp]: "length (col m j) = length m"
  by (simp add: col_def)

lemma nth_col: "i < length m \<Longrightarrow> col m j ! i = m ! i ! j"
  by (simp add: col_def)

lemma vadd_col_col:
  "length a = S \<Longrightarrow> length b = S \<Longrightarrow>
   vadd (col a i) (col b j) = map (\<lambda>k. fadd (a ! k ! i) (b ! k ! j)) [0..<S]"
  by (rule nth_equalityI) (simp_all add: nth_vadd nth_col)

lemma last_col_eq:
  "lattice S T m \<Longrightarrow> 0 < T \<Longrightarrow> last_col m = map (\<lambda>i. m ! i ! (T - 1)) [0..<S]"
  by (rule nth_equalityI) (auto simp: last_col_def lattice_def last_conv_nth)

lemma fold_column:
  assumes "lattice S T m" "n \<le> S" "t < T"
    and step: "\<And>m' s. lattice S T m' \<Longrightarrow> s < S \<Longrightarrow>
                 (\<forall>i<S. \<forall>j<T. j \<noteq> t \<longrightarrow> m' ! i ! j = m ! i ! j) \<Longrightarrow>
                 f s m' = set_at m' s t (v s)"
  shows "lattice S T (fold f [0..<n] m)
     \<and> (\<forall>i<S. \<forall>j<T. fold f [0..<n] m ! i ! j = (if j = t \<and> i < n then v i else m ! i ! j))"
  using assms(2)
proof (induction n)
  case 0
  show ?case using assms(1) by simp
next
  case (Suc n)
  let ?m = "fold f [0..<n] m"
  from Suc have IH: "lattice S T ?m"
      "\<forall>i<S. \<forall>j<T. ?m ! i ! j = (if j = t \<and> i < n then v i else m ! i ! j)"
    by simp_all
  have n: "n < S" using Suc.prems by simp
  have "f n ?m = set_at ?m n t (v n)"
    by (rule step[OF IH(1) n]) (simp add: IH(2))
  then have eq: "fold f [0..<Suc n] m = set_at ?m n t (v n)"
    by simp
  show ?case
    unfolding eq
    using IH n assms(3)
    by (auto simp: lattice_set_at nth_set_at[OF IH(1)])
qed

subsection \<open>The forward kernel\<close>

lemma set_at_set_at: "i < length m \<Longrightarrow> set_at (set_at m i j x) i j y = set_at m i j y"
  by (simp add: set_at_def)

lemma forward_cell_eq:
  assumes "lattice S T la" "s < S" "t < T"
  shows "forward_cell seq lA lB t s la
    = set_at la s t (fadd (logsumexp (vadd (col la (t - 1)) (col lA s))) (lB ! s ! (seq ! t)))"
  using assms
  by (simp add: forward_cell_def Let_def nth_set_at[OF assms(1)] set_at_set_at lattice_length)

lemma forward_column:
  assumes m: "lattice S T m" and lA: "length lA = S" and t: "0 < t" "t < T"
  shows "lattice S T (fold (forward_cell seq lA lB t) [0..<S] m)
     \<and> (\<forall>i<S. \<forall>j<T. fold (forward_cell seq lA lB t) [0..<S] m ! i ! j =
           (if j = t then fadd (logsumexp (map (\<lambda>k. fadd (m ! k ! (t - 1)) (lA ! k ! i)) [0..<S]))
                             (lB ! i ! (seq ! t))
            else m ! i ! j))"
proof -
  let ?v = "\<lambda>i. fadd (logsumexp (map (\<lambda>k. fadd (m ! k ! (t - 1)) (lA ! k ! i)) [0..<S]))
                             (lB ! i ! (seq ! t))"
  have step: "forward_cell seq lA lB t s m' = set_at m' s t (?v s)"
    if m': "lattice S T m'" and s: "s < S"
      and same: "\<forall>i<S. \<forall>j<T. j \<noteq> t \<longrightarrow> m' ! i ! j = m ! i ! j" for m' s
  proof -
    have "vadd (col m' (t - 1)) (col lA s) = map (\<lambda>k. fadd (m' ! k ! (t - 1)) (lA ! k ! s)) [0..<S]"
      using m' lA by (simp add: vadd_col_col lattice_length)
    also have "\<dots> = map (\<lambda>k. fadd (m ! k ! (t - 1)) (lA ! k ! s)) [0..<S]"
      using same t by (intro map_cong) auto
    finally show ?thesis
      using forward_cell_eq[OF m' s t(2), of seq lA lB] by simp
  qed
  have "lattice S T (fold (forward_cell seq lA lB t) [0..<S] m)
     \<and> (\<forall>i<S. \<forall>j<T. fold (forward_cell seq lA lB t) [0..<S] m ! i ! j =
           (if j = t \<and> i < S then ?v i else m ! i ! j))"
  proof (rule fold_column[where f = "forward_cell seq lA lB t" and v = ?v and n = S,
        OF m order_refl t(2)])
    fix m' s
    assume "lattice S T m'" "s < S" "\<forall>i<S. \<forall>j<T. j \<noteq> t \<longrightarrow> m' ! i ! j = m ! i ! j"
    then show "forward_cell seq lA lB t s m' = set_at m' s t (?v s)" by (rule step)
  qed
  then show ?thesis by simp
qed

lemma upt_1_Suc: "0 < n \<Longrightarrow> [1..<Suc n] = [1..<n] @ [n]"
  by simp

lemma forward_columns:
  assumes m: "lattice S T m" and lA: "length lA = S" and lp: "length lp = S"
    and c0: "\<forall>i<S. m ! i ! 0 = log_alpha_rec lp lA lB seq 0 i"
    and n: "n \<le> T"
  shows "lattice S T (fold (\<lambda>t. fold (forward_cell seq lA lB t) [0..<S]) [1..<n] m)
     \<and> (\<forall>i<S. \<forall>j<T. fold (\<lambda>t. fold (forward_cell seq lA lB t) [0..<S]) [1..<n] m ! i ! j =
           (if j < n then log_alpha_rec lp lA lB seq j i else m ! i ! j))"
  using n
proof (induction n)
  case 0
  show ?case using m by simp
next
  case (Suc n)
  show ?case
  proof (cases "n = 0")
    case True
    then show ?thesis using m c0 by simp
  next
    case False
    define P where "P = fold (\<lambda>t. fold (forward_cell seq lA lB t) [0..<S]) [1..<n] m"
    define Q where "Q = fold (forward_cell seq lA lB n) [0..<S] P"
    from Suc have IH: "lattice S T P"
      "\<forall>i<S. \<forall>j<T. P ! i ! j = (if j < n then log_alpha_rec lp lA lB seq j i else m ! i ! j)"
      by (simp_all add: P_def)
    have t: "0 < n" "n < T" using False Suc.prems by simp_all
    have eq: "fold (\<lambda>t. fold (forward_cell seq lA lB t) [0..<S]) [1..<Suc n] m = Q"
      using t by (simp add: upt_1_Suc P_def Q_def)
    obtain n' where n': "n = Suc n'" using t by (cases n) auto
    have prev: "P ! k ! n' = log_alpha_rec lp lA lB seq n' k" if "k < S" for k
      using IH(2) t n' that by simp
    have cell: "fadd (logsumexp (map (\<lambda>k. fadd (P ! k ! (n - 1)) (lA ! k ! i)) [0..<S]))
                  (lB ! i ! (seq ! n)) = log_alpha_rec lp lA lB seq n i" for i
    proof -
      have M: "map (\<lambda>k. fadd (P ! k ! n') (lA ! k ! i)) [0..<S]
          = map (\<lambda>k. fadd (log_alpha_rec lp lA lB seq n' k) (lA ! k ! i)) [0..<S]"
        by (rule map_cong) (simp_all add: prev)
      show ?thesis by (simp only: n' diff_Suc_1 log_alpha_rec.simps lp M)
    qed
    have C: "lattice S T Q"
      "\<forall>i<S. \<forall>j<T. Q ! i ! j = (if j = n then log_alpha_rec lp lA lB seq n i else P ! i ! j)"
      using forward_column[OF IH(1) lA t, of seq lB, unfolded cell, folded Q_def] by blast+
    have "Q ! i ! j = (if j < Suc n then log_alpha_rec lp lA lB seq j i else m ! i ! j)"
      if "i < S" "j < T" for i j
      using C(2) IH(2) that by (cases "j = n") (simp_all add: less_Suc_eq)
    with C(1) show ?thesis unfolding eq by blast
  qed
qed

lemma log_alpha_lattice_shape: "lattice (length lp) (length seq) (log_alpha_lattice lp lA lB seq)"
  by (simp add: lattice_def log_alpha_lattice_def)

lemma log_alpha_lattice_nth:
  "s < length lp \<Longrightarrow> t < length seq \<Longrightarrow>
   log_alpha_lattice lp lA lB seq ! s ! t = log_alpha_rec lp lA lB seq t s"
  by (simp add: log_alpha_lattice_def)

lemma forward_eq:
  assumes m: "lattice S T m" and lp: "length lp = S" and lA: "length lA = S"
    and lB: "length lB = S" and T: "length seq = T" "0 < T"
  shows "forward seq lp lA lB m = (seq_log_likelihood lp lA lB seq, log_alpha_lattice lp lA lB seq)"
proof -
  define m0 where "m0 = set_col m 0 (vadd lp (col lB (seq ! 0)))"
  define F where "F = fold (\<lambda>t. fold (forward_cell seq lA lB t) [0..<S]) [1..<T] m0"
  have len: "length (vadd lp (col lB (seq ! 0))) = S" using lp lB by simp
  have m0: "lattice S T m0" unfolding m0_def using m len by (rule lattice_set_col)
  have c0: "\<forall>i<S. m0 ! i ! 0 = log_alpha_rec lp lA lB seq 0 i"
  proof (intro allI impI)
    fix i assume i: "i < S"
    have "m0 ! i ! 0 = vadd lp (col lB (seq ! 0)) ! i"
      unfolding m0_def using nth_set_col[OF m len i T(2), of 0] by simp
    also have "\<dots> = fadd (lp ! i) (lB ! i ! (seq ! 0))"
      using i lp lB by (simp add: nth_vadd nth_col)
    finally show "m0 ! i ! 0 = log_alpha_rec lp lA lB seq 0 i" by simp
  qed
  have F: "lattice S T F" "\<forall>i<S. \<forall>j<T. F ! i ! j = log_alpha_rec lp lA lB seq j i"
    using forward_columns[OF m0 lA lp c0 order_refl, folded F_def] by simp_all
  have sh: "lattice S T (log_alpha_lattice lp lA lB seq)"
    using log_alpha_lattice_shape[of lp seq lA lB] by (simp add: lp T)
  have eq: "F = log_alpha_lattice lp lA lB seq"
  proof (rule lattice_eqI[OF F(1) sh])
    fix i j assume "i < S" "j < T"
    then show "F ! i ! j = log_alpha_lattice lp lA lB seq ! i ! j"
      using F(2) lp T(1) by (simp add: log_alpha_lattice_nth)
  qed
  have "last_col F = map (\<lambda>i. F ! i ! (T - 1)) [0..<S]"
    by (rule last_col_eq[OF F(1) T(2)])
  also have "\<dots> = map (log_alpha_rec lp lA lB seq (T - 1)) [0..<S]"
    by (rule map_cong) (use F(2) T(2) in simp_all)
  finally have lc: "last_col F = map (log_alpha_rec lp lA lB seq (T - 1)) [0..<S]" .
  have "forward seq lp lA lB m = (logsumexp (last_col F), F)"
    by (simp add: forward_def Let_def lp T(1) F_def m0_def)
  then show ?thesis
    using lc eq by (simp add: seq_log_likelihood_def lp T(1))
qed

subsection \<open>Log-probabilities\<close>

lemma lg_cases: "lg x \<Longrightarrow> (\<And>a. x = Fin a \<Longrightarrow> P) \<Longrightarrow> (x = NInf \<Longrightarrow> P) \<Longrightarrow> P"
  by (cases x) simp_all

lemma pr_nonneg [simp]: "0 \<le> pr x"
  by (cases x) simp_all

lemma pr_eq_0: "lg x \<Longrightarrow> pr x = 0 \<longleftrightarrow> x = NInf"
  by (cases x) simp_all

lemma pr_inj: "lg x \<Longrightarrow> lg y \<Longrightarrow> pr x = pr y \<Longrightarrow> x = y"
  by (cases x; cases y) simp_all

lemma lg_fadd: "lg x \<Longrightarrow> lg y \<Longrightarrow> lg (fadd x y)"
  by (cases x; cases y) simp_all

lemma pr_fadd: "lg x \<Longrightarrow> lg y \<Longrightarrow> pr (fadd x y) = pr x * pr y"
  by (cases x; cases y) (simp_all add: exp_add)

lemma fexp_lg: "lg x \<Longrightarrow> fexp x = Fin (pr x)"
  by (cases x) simp_all

lemma lg_flog: "is_prob x \<Longrightarrow> lg (flog x)"
  by (cases x) simp_all

lemma pr_flog: "0 \<le> p \<Longrightarrow> pr (flog (Fin p)) = p"
  by simp

lemma fgt_lg: "lg x \<Longrightarrow> lg y \<Longrightarrow> fgt y x \<longleftrightarrow> pr x < pr y"
  by (cases x; cases y) simp_all

lemma fmax_lg:
  assumes "lg x" "lg y"
  shows "lg (fmax x y)" "pr (fmax x y) = max (pr x) (pr y)"
  using assms by (auto simp: fmax_def fgt_lg)

lemma amax_lg:
  assumes "\<forall>x \<in> set xs. lg x"
  shows "lg (amax xs) \<and> (\<forall>x \<in> set xs. pr x \<le> pr (amax xs))
     \<and> (amax xs = NInf \<or> amax xs \<in> set xs)"
  using assms
proof (induction xs)
  case Nil
  show ?case by (simp add: amax_def)
next
  case (Cons x xs)
  then have IH: "lg (amax xs)" "\<forall>y \<in> set xs. pr y \<le> pr (amax xs)"
      "amax xs = NInf \<or> amax xs \<in> set xs" and x: "lg x"
    by simp_all
  have eq: "amax (x # xs) = fmax x (amax xs)" by (simp add: amax_def)
  have 1: "lg (amax (x # xs))" unfolding eq using x IH(1) by (rule fmax_lg)
  have p: "pr (amax (x # xs)) = max (pr x) (pr (amax xs))"
    unfolding eq using x IH(1) by (rule fmax_lg)
  have 2: "\<forall>y \<in> set (x # xs). pr y \<le> pr (amax (x # xs))"
    using IH(2) p by auto
  have 3: "amax (x # xs) = NInf \<or> amax (x # xs) \<in> set (x # xs)"
    using IH(3) by (auto simp: eq fmax_def)
  from 1 2 3 show ?case by blast
qed

lemma fsum_Fin: "fsum (map Fin rs) = Fin (sum_list rs)"
  by (induction rs) (simp_all add: fsum_def)

lemma sum_list_div: "sum_list (map (\<lambda>x. f x / c) xs) = sum_list (map f xs) / (c::real)"
  by (induction xs) (simp_all add: add_divide_distrib)

lemma sum_pr_nonneg: "0 \<le> sum_list (map pr xs)"
  by (induction xs) simp_all

lemma pr_le_sum: "x \<in> set xs \<Longrightarrow> pr x \<le> sum_list (map pr xs)"
  using sum_pr_nonneg by (induction xs) (auto simp: add_increasing add_increasing2)

lemma logsumexp_lg:
  assumes "\<forall>x \<in> set xs. lg x"
  shows "lg (logsumexp xs) \<and> pr (logsumexp xs) = sum_list (map pr xs)"
proof -
  note M = amax_lg[OF assms]
  show ?thesis
  proof (cases "amax xs")
    case (Fin a)
    have t: "fexp (fsub x (Fin a)) = Fin (pr x / exp a)" if "x \<in> set xs" for x
      using assms that by (cases x) (auto simp: fsub_def exp_diff)
    have M1: "map (\<lambda>x. fexp (fsub x (Fin a))) xs = map Fin (map (\<lambda>x. pr x / exp a) xs)"
      using t by simp
    have s: "fsum (map (\<lambda>x. fexp (fsub x (Fin a))) xs) = Fin (sum_list (map pr xs) / exp a)"
      by (simp only: M1 fsum_Fin sum_list_div)
    have "Fin a \<in> set xs" using M Fin by auto
    then have "pr (Fin a) \<le> sum_list (map pr xs)"
      by (rule pr_le_sum)
    then have pos: "0 < sum_list (map pr xs)"
      using exp_gt_zero[of a] by (simp del: exp_gt_zero)
    then have pos': "0 < sum_list (map pr xs) / exp a" by simp
    have "logsumexp xs = Fin (ln (sum_list (map pr xs) / exp a) + a)"
      using pos' by (simp add: logsumexp_def Fin s Let_def)
    then show ?thesis using pos by (simp add: exp_add ln_div)
  next
    case NInf
    have all: "x = NInf" if "x \<in> set xs" for x
    proof -
      have "pr x \<le> 0" using M NInf that by auto
      then have "pr x = 0" using pr_nonneg[of x] by linarith
      then show ?thesis using assms that by (simp add: pr_eq_0)
    qed
    have t0: "fexp (fsub x (Fin 0)) = Fin 0" if "x \<in> set xs" for x
      using all[OF that] by (simp add: fsub_def)
    have M0: "map (\<lambda>x. fexp (fsub x (Fin 0))) xs = map Fin (map (\<lambda>x. 0) xs)"
      using t0 by simp
    have s: "fsum (map (\<lambda>x. fexp (fsub x (Fin 0))) xs) = Fin 0"
      unfolding M0 fsum_Fin by simp
    have pz: "pr x = 0" if "x \<in> set xs" for x
      using all[OF that] by simp
    have "map pr xs = map (\<lambda>x. 0) xs"
      by (rule map_cong) (simp_all add: pz)
    then have z: "sum_list (map pr xs) = 0"
      by (simp only: sum_list_0)
    show ?thesis by (simp add: logsumexp_def NInf Let_def s z)
  next
    case PInf
    then show ?thesis using M by simp
  next
    case NaN
    then show ?thesis using M by simp
  qed
qed

end
